theory Spec2Isabelle
  imports Main "HOL-Library.Word"
begin

section \<open>Errors and formatted text\<close>

text \<open>
  A Go \<open>error\<close> is observed by the code only through its \<open>Error()\<close> text (the cache
  compares that text with the store's not-found text), so an error value is modelled by
  the text it carries. \<open>errors_New\<close> stands for \<open>errors.New\<close> and for the errors built by
  \<open>fmt.Errorf\<close>.
\<close>

datatype error = errors_New string

fun Error :: "error \<Rightarrow> string" where
  "Error (errors_New s) = s"

text \<open>
  The verb \<open>%d\<close> of \<open>fmt.Sprintf\<close>: the digits of the magnitude, most significant first,
  after a minus sign for a negative value.
\<close>

definition digit_char :: "nat \<Rightarrow> char" where
  "digit_char d = ''0123456789'' ! d"

function digits_of :: "nat \<Rightarrow> string" where
  "digits_of n = (if n < 10 then [digit_char n] else digits_of (n div 10) @ [digit_char (n mod 10)])"
  by pat_completeness auto
termination
  by (relation "measure (\<lambda>n. n)") auto

declare digits_of.simps [simp del]

definition sprintf_d :: "int \<Rightarrow> string" where
  "sprintf_d i = (if i < 0 then CHR ''-'' # digits_of (nat (- i)) else digits_of (nat i))"

section \<open>Cache keys (cache/value/value.go)\<close>

text \<open>
  The key parameter has type \<open>interface{}\<close>; the constructors are the dynamic types the
  type switch of \<open>keyToString\<close> names, followed by three dynamic types it does not name
  (\<open>uint\<close>, \<open>bool\<close> and the nil interface), which reach its default branch. The
  platform-width \<open>int\<close> and \<open>uint\<close> are taken at 64 bits.
\<close>

datatype key =
    KString string
  | KInt8 "8 word"
  | KInt16 "16 word"
  | KInt32 "32 word"
  | KInt64 "64 word"
  | KUint8 "8 word"
  | KUint16 "16 word"
  | KUint32 "32 word"
  | KUint64 "64 word"
  | KInt "64 word"
  | KUint "64 word"
  | KBool bool
  | KNil

fun keyToString :: "key \<Rightarrow> error + string" where
  "keyToString (KString t) = Inr t"
| "keyToString (KInt8 w) = Inr (sprintf_d (sint w))"
| "keyToString (KInt16 w) = Inr (sprintf_d (sint w))"
| "keyToString (KInt32 w) = Inr (sprintf_d (sint w))"
| "keyToString (KInt64 w) = Inr (sprintf_d (sint w))"
| "keyToString (KUint8 w) = Inr (sprintf_d (uint w))"
| "keyToString (KUint16 w) = Inr (sprintf_d (uint w))"
| "keyToString (KUint32 w) = Inr (sprintf_d (uint w))"
| "keyToString (KUint64 w) = Inr (sprintf_d (uint w))"
| "keyToString (KInt w) = Inr (sprintf_d (sint w))"
| "keyToString _ = Inl (errors_New ''key err: unsupported type'')"

text \<open>
  What the specification calls base-10 text: the value a string of decimal digits
  denotes, an optional leading minus sign negating it, and the absence of padding.
\<close>

definition digit_val :: "char \<Rightarrow> nat" where
  "digit_val c = of_char c - 48"

definition is_digit :: "char \<Rightarrow> bool" where
  "is_digit c = (48 \<le> (of_char c :: nat) \<and> (of_char c :: nat) \<le> 57)"

definition digits_value :: "string \<Rightarrow> nat" where
  "digits_value s = foldl (\<lambda>acc c. 10 * acc + digit_val c) 0 s"

fun decimal_value :: "string \<Rightarrow> int" where
  "decimal_value [] = 0"
| "decimal_value (c # cs) =
     (if c = CHR ''-'' then - int (digits_value cs) else int (digits_value (c # cs)))"

fun unpadded_digits :: "string \<Rightarrow> bool" where
  "unpadded_digits [] = False"
| "unpadded_digits [c] = is_digit c"
| "unpadded_digits (c # cs) = (is_digit c \<and> c \<noteq> CHR ''0'' \<and> list_all is_digit cs)"

fun unpadded_decimal :: "string \<Rightarrow> bool" where
  "unpadded_decimal [] = False"
| "unpadded_decimal (c # cs) =
     (if c = CHR ''-'' then unpadded_digits cs \<and> cs \<noteq> ''0'' else unpadded_digits (c # cs))"

text \<open>The integer a key of a supported numeric kind holds.\<close>

fun numeric_value :: "key \<Rightarrow> int option" where
  "numeric_value (KInt8 w) = Some (sint w)"
| "numeric_value (KInt16 w) = Some (sint w)"
| "numeric_value (KInt32 w) = Some (sint w)"
| "numeric_value (KInt64 w) = Some (sint w)"
| "numeric_value (KUint8 w) = Some (uint w)"
| "numeric_value (KUint16 w) = Some (uint w)"
| "numeric_value (KUint32 w) = Some (uint w)"
| "numeric_value (KUint64 w) = Some (uint w)"
| "numeric_value (KInt w) = Some (sint w)"
| "numeric_value _ = None"

text \<open>
  The verb \<open>%v\<close> of the \<open>fmt\<close> package on a key, as \<open>Cache.Get\<close> uses it in the text
  of the error it returns.
\<close>

fun fmt_v :: "key \<Rightarrow> string" where
  "fmt_v (KString t) = t"
| "fmt_v (KInt8 w) = sprintf_d (sint w)"
| "fmt_v (KInt16 w) = sprintf_d (sint w)"
| "fmt_v (KInt32 w) = sprintf_d (sint w)"
| "fmt_v (KInt64 w) = sprintf_d (sint w)"
| "fmt_v (KUint8 w) = sprintf_d (uint w)"
| "fmt_v (KUint16 w) = sprintf_d (uint w)"
| "fmt_v (KUint32 w) = sprintf_d (uint w)"
| "fmt_v (KUint64 w) = sprintf_d (uint w)"
| "fmt_v (KInt w) = sprintf_d (sint w)"
| "fmt_v (KUint w) = sprintf_d (uint w)"
| "fmt_v (KBool b) = (if b then ''true'' else ''false'')"
| "fmt_v KNil = ''<nil>''"

section \<open>The value cache (cache/value/value.go)\<close>

text \<open>
  The collaborators of the cache lie outside the source files modelled here and are taken
  as parameters: the JSON codec (\<open>json.Marshal\<close>, and \<open>json.Unmarshal\<close> into the
  caller's output slot), the store client with its three commands, each returning the
  store's next state, and package \<open>redis\<close> with its not-found text \<open>RedisNil\<close> and the
  instance manager, which resolves a namespace to a client or to nil.
\<close>

record ('v, 'o) json =
  Marshal :: "'v \<Rightarrow> error + string"
  Unmarshal :: "string \<Rightarrow> error + 'o"

type_synonym Duration = int

record 's Client =
  cmdGet :: "'s \<Rightarrow> string \<Rightarrow> (error + string) \<times> 's"
  cmdSet :: "'s \<Rightarrow> string \<Rightarrow> string \<Rightarrow> Duration \<Rightarrow> error option \<times> 's"
  cmdDel :: "'s \<Rightarrow> string \<Rightarrow> error option \<times> 's"

record 's redis =
  RedisNil :: string
  GetInstance :: "string \<Rightarrow> 's Client option"

record 'v Cache =
  namespace :: string
  prefix :: string
  load :: "key \<Rightarrow> error + 'v"
  expire :: Duration

definition NewCache :: "string \<Rightarrow> string \<Rightarrow> Duration \<Rightarrow> (key \<Rightarrow> error + 'v) \<Rightarrow> 'v Cache" where
  "NewCache ns pre ex ld =
     \<lparr>namespace = map (\<lambda>c. if c = CHR ''/'' then CHR ''.'' else c) ns,
      prefix = pre, load = ld, expire = ex\<rparr>"

text \<open>
  The state a call runs in: the state of the store, and the calls made so far to the
  loader and to the store client, in order. Log lines and the tracing span that \<open>Get\<close>
  opens and finishes have no effect on what the functions return and are left out.
\<close>

datatype event =
    Load key
  | StoreGet string
  | StoreSet string string Duration
  | StoreDel string

record 's world =
  store :: 's
  calls :: "event list"

definition fixKey :: "'v Cache \<Rightarrow> key \<Rightarrow> error + string" where
  "fixKey m key =
     (case keyToString key of
        Inl err \<Rightarrow> Inl err
      | Inr skey \<Rightarrow>
          if length (prefix m) > 0 then Inr (prefix m @ ''.'' @ skey) else Inr skey)"

definition getValueFromCache ::
  "('v, 'o) json \<Rightarrow> 's redis \<Rightarrow> 'v Cache \<Rightarrow> 's world \<Rightarrow> key \<Rightarrow> (error + 'o) \<times> 's world" where
  "getValueFromCache js rd m w key =
     (case fixKey m key of
        Inl err \<Rightarrow> (Inl err, w)
      | Inr skey \<Rightarrow>
          (case GetInstance rd (namespace m) of
             None \<Rightarrow> (Inl (errors_New (''get instance err, namespace: '' @ namespace m)), w)
           | Some client \<Rightarrow>
               (let (res, s') = cmdGet client (store w) skey;
                    w' = w\<lparr>store := s', calls := calls w @ [StoreGet skey]\<rparr>
                in case res of
                     Inl err \<Rightarrow> (Inl err, w')
                   | Inr data \<Rightarrow>
                       (case Unmarshal js data of
                          Inl err \<Rightarrow> (Inl err, w')
                        | Inr v \<Rightarrow> (Inr v, w')))))"

text \<open>
  \<open>loadValueToCache\<close> has one variable \<open>err\<close>. It first holds the error of the loader
  or of \<open>json.Marshal\<close> (\<open>err0\<close> below). The statement \<open>skey, err := m.fixKey(key)\<close> is in
  the same scope, so it declares only \<open>skey\<close> and assigns to that same \<open>err\<close> (\<open>err1\<close>
  below): the test of \<open>err\<close> after the \<open>Set\<close> command reads what \<open>fixKey\<close> returned.
\<close>

definition loadValueToCache ::
  "('v, 'o) json \<Rightarrow> 's redis \<Rightarrow> 'v Cache \<Rightarrow> 's world \<Rightarrow> key \<Rightarrow> error option \<times> 's world" where
  "loadValueToCache js rd m w key =
     (let w1 = w\<lparr>calls := calls w @ [Load key]\<rparr>;
          (data, err0) =
             (case load m key of
                Inl err \<Rightarrow> (Error err, Some err)
              | Inr v \<Rightarrow>
                  (case Marshal js v of
                     Inl err \<Rightarrow> (Error err, Some err)
                   | Inr d \<Rightarrow> (d, None)));
          (skey, err1) =
             (case fixKey m key of
                Inl err \<Rightarrow> ([], Some err)
              | Inr k \<Rightarrow> (k, None))
      in if err1 \<noteq> None then (err1, w1)
         else
           (case GetInstance rd (namespace m) of
              None \<Rightarrow> (Some (errors_New (''get instance err, namespace: '' @ namespace m)), w1)
            | Some client \<Rightarrow>
                (let (rerr, s') = cmdSet client (store w1) skey data (expire m);
                     w2 = w1\<lparr>store := s', calls := calls w1 @ [StoreSet skey data (expire m)]\<rparr>
                 in if err1 \<noteq> None then (err1, w2) else (rerr, w2))))"

text \<open>
  \<open>Get\<close> returns an error, and on success has filled the output slot: \<open>Inr v\<close> is the
  nil error with \<open>v\<close> in the slot.
\<close>

definition Get ::
  "('v, 'o) json \<Rightarrow> 's redis \<Rightarrow> 'v Cache \<Rightarrow> 's world \<Rightarrow> key \<Rightarrow> (error + 'o) \<times> 's world" where
  "Get js rd m w key =
     (case getValueFromCache js rd m w key of
        (Inr v, w1) \<Rightarrow> (Inr v, w1)
      | (Inl err, w1) \<Rightarrow>
          if Error err \<noteq> RedisNil rd
          then (Inl (errors_New (''Cache.Get --> cache key: '' @ fmt_v key @ '' err: '' @ Error err)), w1)
          else
            (case loadValueToCache js rd m w1 key of
               (Some err', w2) \<Rightarrow> (Inl err', w2)
             | (None, w2) \<Rightarrow> getValueFromCache js rd m w2 key))"

definition loaderCalls :: "event list \<Rightarrow> nat" where
  "loaderCalls evs = length (filter (\<lambda>e. case e of Load _ \<Rightarrow> True | _ \<Rightarrow> False) evs)"

definition storeWrites :: "event list \<Rightarrow> nat" where
  "storeWrites evs =
     length (filter (\<lambda>e. case e of StoreSet _ _ _ \<Rightarrow> True | StoreDel _ \<Rightarrow> True | _ \<Rightarrow> False) evs)"

section \<open>Ambient contexts and the tracer\<close>

text \<open>
  A \<open>context.Context\<close> is read by the code in two ways: for its active span
  (\<open>opentracing.SpanFromContext\<close>, nil when there is none) and for the value under a
  text key (\<open>ctx.Value\<close>, nil when there is none). Spans and span contexts belong to the
  tracer and stay abstract; the tracer's operations are parameters. \<open>Inject\<close> returns the
  carrier as it leaves it; the code ignores its error.
\<close>

record ('sp, 'h) Context =
  activeSpan :: "'sp option"
  ctxValues :: "string \<Rightarrow> 'h option"

definition Background :: "('sp, 'h) Context" where
  "Background = \<lparr>activeSpan = None, ctxValues = (\<lambda>k. None)\<rparr>"

definition ContextWithSpan :: "('sp, 'h) Context \<Rightarrow> 'sp \<Rightarrow> ('sp, 'h) Context" where
  "ContextWithSpan ctx span = ctx\<lparr>activeSpan := Some span\<rparr>"

definition WithValue :: "('sp, 'h) Context \<Rightarrow> string \<Rightarrow> 'h option \<Rightarrow> ('sp, 'h) Context" where
  "WithValue ctx k v = ctx\<lparr>ctxValues := (ctxValues ctx)(k := v)\<rparr>"

definition SpanFromContext :: "('sp, 'h) Context \<Rightarrow> 'sp option" where
  "SpanFromContext ctx = activeSpan ctx"

definition ctxValue :: "('sp, 'h) Context \<Rightarrow> string \<Rightarrow> 'h option" where
  "ctxValue ctx k = ctxValues ctx k"

type_synonym TextMapCarrier = "string \<rightharpoonup> string"

datatype 'sc StartSpanOption = RPCServerOption 'sc

record ('sp, 'sc) Tracer =
  Inject :: "'sc \<Rightarrow> TextMapCarrier \<Rightarrow> TextMapCarrier"
  Extract :: "TextMapCarrier \<Rightarrow> error + 'sc"
  StartSpan :: "string \<Rightarrow> 'sc StartSpanOption list \<Rightarrow> 'sp"
  SpanContext :: "'sp \<Rightarrow> 'sc"

section \<open>Message payloads (package mq)\<close>

record 'h Payload =
  Carrier :: TextMapCarrier
  Value :: string
  Head :: "'h option"

text \<open>
  The declaration of \<open>Message\<close> is not among the sources; the code reads and writes its
  two fields \<open>Key\<close> and \<open>Value\<close> (\<open>MsgValue\<close> here, the name \<open>Value\<close> being the
  payload's field). The type of \<open>Key\<close> is a parameter.
\<close>

record ('k, 'b) Message =
  Key :: 'k
  MsgValue :: 'b

definition generatePayload ::
  "('sp, 'sc) Tracer \<Rightarrow> ('v, 'o) json \<Rightarrow> ('sp, 'h) Context \<Rightarrow> 'v \<Rightarrow> error + 'h Payload" where
  "generatePayload tr js ctx v =
     (let carrier = (case SpanFromContext ctx of
                       Some span \<Rightarrow> Inject tr (SpanContext tr span) Map.empty
                     | None \<Rightarrow> Map.empty)
      in case Marshal js v of
           Inl err \<Rightarrow> Inl err
         | Inr msg \<Rightarrow> Inr \<lparr>Carrier = carrier, Value = msg, Head = ctxValue ctx ''Head''\<rparr>)"

fun msgsLoop ::
  "('v, 'o) json \<Rightarrow> TextMapCarrier \<Rightarrow> 'h option \<Rightarrow> ('k, 'v) Message list \<Rightarrow>
   ('k, 'h Payload) Message list \<Rightarrow> error + ('k, 'h Payload) Message list" where
  "msgsLoop js carrier head [] nmsgs = Inr nmsgs"
| "msgsLoop js carrier head (msg # msgs) nmsgs =
     (case Marshal js (MsgValue msg) of
        Inl err \<Rightarrow> Inl err
      | Inr body \<Rightarrow>
          msgsLoop js carrier head msgs
            (nmsgs @ [\<lparr>Key = Key msg,
                        MsgValue = \<lparr>Carrier = carrier, Value = body, Head = head\<rparr>\<rparr>]))"

definition generateMsgsPayload ::
  "('sp, 'sc) Tracer \<Rightarrow> ('v, 'o) json \<Rightarrow> ('sp, 'h) Context \<Rightarrow> ('k, 'v) Message list \<Rightarrow>
   error + ('k, 'h Payload) Message list" where
  "generateMsgsPayload tr js ctx msgs =
     (let carrier = (case SpanFromContext ctx of
                       Some span \<Rightarrow> Inject tr (SpanContext tr span) Map.empty
                     | None \<Rightarrow> Map.empty);
          head = ctxValue ctx ''Head''
      in msgsLoop js carrier head msgs [])"

text \<open>
  \<open>parsePayload\<close> returns a context and an error, one of them nil: \<open>Inl err\<close> is the nil
  context with the error, \<open>Inr (ctx, v)\<close> the context with the value decoded into the
  output slot.
\<close>

definition parsePayload ::
  "('sp, 'sc) Tracer \<Rightarrow> ('v, 'o) json \<Rightarrow> 'h Payload \<Rightarrow> string \<Rightarrow> error + (('sp, 'h) Context \<times> 'o)" where
  "parsePayload tr js payload opName =
     (let span = (case Extract tr (Carrier payload) of
                    Inr spanCtx \<Rightarrow> StartSpan tr opName [RPCServerOption spanCtx]
                  | Inl err \<Rightarrow> StartSpan tr opName []);
          ctx0 = Background;
          ctx1 = ContextWithSpan ctx0 span;
          ctx2 = WithValue ctx1 ''Head'' (Head payload)
      in case Unmarshal js (Value payload) of
           Inl err \<Rightarrow> Inl err
         | Inr v \<Rightarrow> Inr (ctx2, v))"

text \<open>The composition the round-trip property of the specification speaks of.\<close>

definition generate_then_parse ::
  "('sp, 'sc) Tracer \<Rightarrow> ('v, 'v) json \<Rightarrow> ('sp, 'h) Context \<Rightarrow> 'v \<Rightarrow> string \<Rightarrow>
   error + (('sp, 'h) Context \<times> 'v)" where
  "generate_then_parse tr js ctx v opName =
     (case generatePayload tr js ctx v of
        Inl err \<Rightarrow> Inl err
      | Inr payload \<Rightarrow> parsePayload tr js payload opName)"

section \<open>Log contexts (package slog)\<close>

text \<open>
  A \<open>contextKV\<close> is a \<open>map[string]interface{}\<close>. Its values are a trace identifier (the
  two 64-bit halves of a \<open>jaeger.TraceID\<close>), an \<open>int64\<close>, nil, or a value of another
  type, kept as text.
\<close>

datatype kv_value =
    TraceIDVal "64 word" "64 word"
  | Int64Val "64 word"
  | NilVal
  | OtherVal string

type_synonym contextKV = "string \<rightharpoonup> kv_value"

definition contextKeyOpUid :: string where
  "contextKeyOpUid = ''uid''"

definition contextKeyTraceID :: string where
  "contextKeyTraceID = ''traceID''"

definition emptyTrace :: contextKV where
  "emptyTrace = [contextKeyTraceID \<mapsto> TraceIDVal 0 0]"

definition emptyHead :: contextKV where
  "emptyHead = [contextKeyOpUid \<mapsto> Int64Val 0]"

definition ErrorTraceIDNotFound :: error where
  "ErrorTraceIDNotFound = errors_New ''traceID not found''"

definition ErrorHeadKVNotFound :: error where
  "ErrorHeadKVNotFound = errors_New ''valid context head not found''"

text \<open>
  Two type assertions are parameters. \<open>jaegerTraceID span\<close> is the trace identifier of
  \<open>span.Context()\<close> when that is a \<open>jaeger.SpanContext\<close>, and \<open>None\<close> for the span
  context of any other tracer. \<open>toKV head\<close> is the projection of a header value that
  implements \<open>contextHeader\<close>, and \<open>None\<close> for a value of a type without that method.
  Reading a key that a Go map lacks gives nil.
\<close>

definition extractTraceID ::
  "('sp \<Rightarrow> (64 word \<times> 64 word) option) \<Rightarrow> ('sp, 'h) Context \<Rightarrow> error + contextKV" where
  "extractTraceID jaegerTraceID ctx =
     (case SpanFromContext ctx of
        Some span \<Rightarrow>
          (case jaegerTraceID span of
             Some (hi, lo) \<Rightarrow> Inr (Map.empty(contextKeyTraceID \<mapsto> TraceIDVal hi lo))
           | None \<Rightarrow> Inl ErrorTraceIDNotFound)
      | None \<Rightarrow> Inl ErrorTraceIDNotFound)"

definition extractHead ::
  "('h \<Rightarrow> contextKV option) \<Rightarrow> ('sp, 'h) Context \<Rightarrow> bool \<Rightarrow> error + contextKV" where
  "extractHead toKV ctx fullHead =
     (case ctxValue ctx ''Head'' of
        None \<Rightarrow> Inl ErrorHeadKVNotFound
      | Some head \<Rightarrow>
          (case toKV head of
             None \<Rightarrow> Inl ErrorHeadKVNotFound
           | Some kv \<Rightarrow>
               if fullHead then Inr kv
               else Inr [contextKeyOpUid \<mapsto>
                           (case kv contextKeyOpUid of None \<Rightarrow> NilVal | Some v \<Rightarrow> v)]))"

text \<open>The context parameter of \<open>extractContext\<close> may be nil: \<open>None\<close>.\<close>

definition extractContext ::
  "('sp \<Rightarrow> (64 word \<times> 64 word) option) \<Rightarrow> ('h \<Rightarrow> contextKV option) \<Rightarrow>
   ('sp, 'h) Context option \<Rightarrow> bool \<Rightarrow> contextKV list" where
  "extractContext jaegerTraceID toKV ctxo fullHead =
     (case ctxo of
        None \<Rightarrow> []
      | Some ctx \<Rightarrow>
          (let v0 = [];
               v1 = (case extractTraceID jaegerTraceID ctx of
                       Inr ckv \<Rightarrow> v0 @ [ckv]
                     | Inl err \<Rightarrow> v0 @ [emptyTrace]);
               v2 = (case extractHead toKV ctx fullHead of
                       Inr ckv \<Rightarrow> v1 @ [ckv]
                     | Inl err \<Rightarrow> v1 @ [emptyHead])
           in v2))"

section \<open>Collaborators for running the code on concrete inputs\<close>

text \<open>
  The examples below need a store, a codec, a tracer and a header to run against. These
  stand in for the real collaborators and are used by the examples only.

  The store keeps each entry with the time at which it expires, has a clock, and can be
  unreachable; a read of a missing or expired entry reports the text \<open>redis: nil\<close>.
\<close>

record mem =
  entries :: "string \<rightharpoonup> (string \<times> int)"
  clock :: int
  up :: bool

definition memGet :: "mem \<Rightarrow> string \<Rightarrow> (error + string) \<times> mem" where
  "memGet s k =
     (if \<not> up s then (Inl (errors_New ''dial tcp: connection refused''), s)
      else (case entries s k of
              None \<Rightarrow> (Inl (errors_New ''redis: nil''), s)
            | Some (d, deadline) \<Rightarrow>
                if clock s < deadline then (Inr d, s) else (Inl (errors_New ''redis: nil''), s)))"

definition memSet :: "mem \<Rightarrow> string \<Rightarrow> string \<Rightarrow> Duration \<Rightarrow> error option \<times> mem" where
  "memSet s k d ttl =
     (if \<not> up s then (Some (errors_New ''dial tcp: connection refused''), s)
      else (None, s\<lparr>entries := (entries s)(k \<mapsto> (d, clock s + ttl))\<rparr>))"

definition memDel :: "mem \<Rightarrow> string \<Rightarrow> error option \<times> mem" where
  "memDel s k =
     (if \<not> up s then (Some (errors_New ''dial tcp: connection refused''), s)
      else (None, s\<lparr>entries := (entries s)(k := None)\<rparr>))"

definition memClient :: "mem Client" where
  "memClient = \<lparr>cmdGet = memGet, cmdSet = memSet, cmdDel = memDel\<rparr>"

definition memRedis :: "mem redis" where
  "memRedis =
     \<lparr>RedisNil = ''redis: nil'',
      GetInstance = (\<lambda>ns. if ns = ''orders.cache'' then Some memClient else None)\<rparr>"

definition coldStore :: "mem world" where
  "coldStore = \<lparr>store = \<lparr>entries = Map.empty, clock = 0, up = True\<rparr>, calls = []\<rparr>"

definition downStore :: "mem world" where
  "downStore = \<lparr>store = \<lparr>entries = Map.empty, clock = 0, up = False\<rparr>, calls = []\<rparr>"

definition later :: "int \<Rightarrow> mem world \<Rightarrow> mem world" where
  "later d w = w\<lparr>store := (store w)\<lparr>clock := clock (store w) + d\<rparr>\<rparr>"

text \<open>
  The codec covers three kinds of Go value: an \<open>int\<close>, a struct whose single field is
  an unexported \<open>int\<close>, and a channel. \<open>json.Marshal\<close> prints an \<open>int\<close> in decimal,
  prints the struct as \<open>{}\<close> (unexported fields are not encoded) and rejects a channel.
  \<open>json.Unmarshal\<close> into an \<open>int\<close> slot reads a decimal integer; into a slot of the
  struct type it reads \<open>{}\<close> and leaves the unexported field at zero; a text that does
  not begin a JSON value is a syntax error naming its first byte.
\<close>

datatype go_value = GoInt int | GoHidden int | GoChan

definition stdMarshal :: "go_value \<Rightarrow> error + string" where
  "stdMarshal v =
     (case v of
        GoInt i \<Rightarrow> Inr (sprintf_d i)
      | GoHidden n \<Rightarrow> Inr ''{}''
      | GoChan \<Rightarrow> Inl (errors_New ''json: unsupported type: chan int''))"

definition syntaxError :: "string \<Rightarrow> error" where
  "syntaxError data =
     (case data of
        [] \<Rightarrow> errors_New ''unexpected end of JSON input''
      | c # cs \<Rightarrow>
          errors_New (''invalid character '' @ [CHR 0x27, c, CHR 0x27] @ '' looking for beginning of value''))"

definition unmarshalInt :: "string \<Rightarrow> error + go_value" where
  "unmarshalInt data =
     (if unpadded_decimal data then Inr (GoInt (decimal_value data)) else Inl (syntaxError data))"

definition unmarshalHidden :: "string \<Rightarrow> error + go_value" where
  "unmarshalHidden data = (if data = ''{}'' then Inr (GoHidden 0) else Inl (syntaxError data))"

definition intJSON :: "(go_value, go_value) json" where
  "intJSON = \<lparr>Marshal = stdMarshal, Unmarshal = unmarshalInt\<rparr>"

definition hiddenJSON :: "(go_value, go_value) json" where
  "hiddenJSON = \<lparr>Marshal = stdMarshal, Unmarshal = unmarshalHidden\<rparr>"

text \<open>
  The tracer's span context is a trace number, carried under the key \<open>trace-id\<close>; a span
  records its operation name, the options it was started with and its trace number.
\<close>

datatype test_span = TestSpan string "nat StartSpanOption list" nat

definition testTracer :: "(test_span, nat) Tracer" where
  "testTracer =
     \<lparr>Inject = (\<lambda>sc carrier. carrier(''trace-id'' \<mapsto> sprintf_d (int sc))),
      Extract = (\<lambda>carrier. case carrier ''trace-id'' of
                   None \<Rightarrow> Inl (errors_New ''opentracing: SpanContext not found in Extract carrier'')
                 | Some t \<Rightarrow> Inr (nat (decimal_value t))),
      StartSpan = (\<lambda>opName opts. TestSpan opName opts
                     (case opts of RPCServerOption sc # _ \<Rightarrow> sc | [] \<Rightarrow> 1)),
      SpanContext = (\<lambda>span. case span of TestSpan _ _ tid \<Rightarrow> tid)\<rparr>"

definition testJaegerTraceID :: "test_span \<Rightarrow> (64 word \<times> 64 word) option" where
  "testJaegerTraceID span = (case span of TestSpan _ _ tid \<Rightarrow> Some (0, of_nat tid))"

datatype test_head = TestHead "64 word" string | NotAHeader

definition testToKV :: "test_head \<Rightarrow> contextKV option" where
  "testToKV h =
     (case h of
        TestHead uid nm \<Rightarrow> Some [''uid'' \<mapsto> Int64Val uid, ''name'' \<mapsto> OtherVal nm]
      | NotAHeader \<Rightarrow> None)"

text \<open>The loaders of the examples: one that fails and one that returns a channel.\<close>

definition failingLoader :: "key \<Rightarrow> error + go_value" where
  "failingLoader k = Inl (errors_New ''boom'')"

definition chanLoader :: "key \<Rightarrow> error + go_value" where
  "chanLoader k = Inr GoChan"

text \<open>
  The cache of the specification's scenario (namespace \<open>orders/cache\<close>, prefix \<open>ord\<close>,
  five seconds), once with the failing loader and once with the loader of a channel, and
  a producer's context with an active span and a header.
\<close>

definition negCache :: "go_value Cache" where
  "negCache = NewCache ''orders/cache'' ''ord'' 5000000000 failingLoader"

definition chanCache :: "go_value Cache" where
  "chanCache = NewCache ''orders/cache'' ''ord'' 5000000000 chanLoader"

definition producerCtx :: "(test_span, test_head) Context" where
  "producerCtx =
     ContextWithSpan (WithValue Background ''Head'' (Some (TestHead 7 ''x'')))
       (TestSpan ''produce'' [] 12)"

section \<open>Decimal rendering\<close>

lemma below_ten: "d < 10 \<Longrightarrow> d \<in> {0, 1, 2, 3, 4, 5, 6, 7, 8, 9 :: nat}"
  by auto

lemma digit_val_digit_char: "d < 10 \<Longrightarrow> digit_val (digit_char d) = d"
  by (drule below_ten) (auto simp: digit_val_def digit_char_def)

lemma is_digit_digit_char: "d < 10 \<Longrightarrow> is_digit (digit_char d)"
  by (drule below_ten) (auto simp: is_digit_def digit_char_def)

lemma digit_char_zero_iff: "d < 10 \<Longrightarrow> digit_char d = CHR ''0'' \<longleftrightarrow> d = 0"
  by (drule below_ten) (auto simp: digit_char_def)

lemma digits_value_snoc: "digits_value (s @ [c]) = 10 * digits_value s + digit_val c"
  by (simp add: digits_value_def)

lemma digits_value_digits_of: "digits_value (digits_of n) = n"
proof (induction n rule: digits_of.induct)
  case (1 n)
  show ?case
  proof (cases "n < 10")
    case True
    then show ?thesis
      by (subst digits_of.simps) (simp add: digits_value_def digit_val_digit_char)
  next
    case False
    then have "digits_value (digits_of n) =
        10 * digits_value (digits_of (n div 10)) + digit_val (digit_char (n mod 10))"
      by (subst digits_of.simps) (simp add: digits_value_snoc)
    also have "\<dots> = 10 * (n div 10) + n mod 10"
      using 1 False by (simp add: digit_val_digit_char)
    finally show ?thesis by simp
  qed
qed

lemma digits_of_all_digits: "list_all is_digit (digits_of n)"
proof (induction n rule: digits_of.induct)
  case (1 n)
  show ?case
  proof (cases "n < 10")
    case True
    then show ?thesis
      by (subst digits_of.simps) (simp add: is_digit_digit_char)
  next
    case False
    then show ?thesis
      using 1 by (subst digits_of.simps) (simp add: is_digit_digit_char)
  qed
qed

lemma digits_of_not_Nil: "digits_of n \<noteq> []"
  by (subst digits_of.simps) simp

lemma hd_digits_of: "0 < n \<Longrightarrow> hd (digits_of n) \<noteq> CHR ''0''"
proof (induction n rule: digits_of.induct)
  case (1 n)
  show ?case
  proof (cases "n < 10")
    case True
    then show ?thesis
      using 1(2) by (subst digits_of.simps) (simp add: digit_char_zero_iff)
  next
    case False
    then have "hd (digits_of (n div 10)) \<noteq> CHR ''0''"
      using 1(1) by simp
    then show ?thesis
      using False by (subst digits_of.simps) (simp add: digits_of_not_Nil)
  qed
qed

lemma unpadded_digits_iff:
  "unpadded_digits s \<longleftrightarrow> s \<noteq> [] \<and> list_all is_digit s \<and> (length s = 1 \<or> hd s \<noteq> CHR ''0'')"
  by (cases s rule: unpadded_digits.cases) auto

lemma digits_of_single: "length (digits_of n) = 1 \<longleftrightarrow> n < 10"
  by (subst digits_of.simps) (auto simp: digits_of_not_Nil)

lemma unpadded_digits_of: "unpadded_digits (digits_of n)"
  unfolding unpadded_digits_iff
  using digits_of_not_Nil digits_of_all_digits hd_digits_of [of n] digits_of_single [of n]
  by (cases "n = 0") auto

lemma minus_not_digit: "\<not> is_digit CHR ''-''"
  by (simp add: is_digit_def)

lemma hd_digits_of_not_minus: "hd (digits_of n) \<noteq> CHR ''-''"
  using digits_of_all_digits [of n] digits_of_not_Nil [of n] minus_not_digit
  by (cases "digits_of n") auto

lemma decimal_value_digits: "decimal_value (digits_of n) = int n"
  using hd_digits_of_not_minus [of n] digits_of_not_Nil [of n] digits_value_digits_of [of n]
  by (cases "digits_of n") auto

lemma digits_of_zero: "digits_of n = ''0'' \<longleftrightarrow> n = 0"
proof
  assume "digits_of n = ''0''"
  then have "digits_value (digits_of n) = digits_value ''0''" by simp
  then have "n = digits_value ''0''" by (simp only: digits_value_digits_of)
  then show "n = 0" by (simp add: digits_value_def digit_val_def)
next
  assume "n = 0"
  then show "digits_of n = ''0''"
    by (subst digits_of.simps) (simp add: digit_char_def)
qed

lemma decimal_value_sprintf_d: "decimal_value (sprintf_d i) = i"
  by (simp add: sprintf_d_def decimal_value_digits digits_value_digits_of)

lemma unpadded_decimal_sprintf_d: "unpadded_decimal (sprintf_d i)"
proof (cases "i < 0")
  case True
  then show ?thesis
    by (simp add: sprintf_d_def unpadded_digits_of digits_of_zero)
next
  case False
  then show ?thesis
    using hd_digits_of_not_minus [of "nat i"] digits_of_not_Nil [of "nat i"]
      unpadded_digits_of [of "nat i"]
    by (cases "digits_of (nat i)") (auto simp: sprintf_d_def)
qed

lemma sprintf_d_inj: "sprintf_d i = sprintf_d j \<Longrightarrow> i = j"
  by (metis decimal_value_sprintf_d)

lemma keyToString_numeric: "numeric_value k = Some v \<Longrightarrow> keyToString k = Inr (sprintf_d v)"
  by (cases k) auto

lemmas render_defs = sprintf_d_def digits_of.simps digit_char_def

section \<open>Key normalization\<close>

text \<open>
  C10: \<open>keyToString\<close> accepts the platform-width \<open>int\<close> kind. For every \<open>int\<close> value it
  succeeds, never with the unsupported-type error, and its result is the base-10 text
  of the value: the text reads back as the value and carries no padding.
\<close>

theorem keyToString_int:
  "keyToString (KInt w) = Inr (sprintf_d (sint w))
   \<and> keyToString (KInt w) \<noteq> Inl (errors_New ''key err: unsupported type'')
   \<and> decimal_value (sprintf_d (sint w)) = sint w
   \<and> unpadded_decimal (sprintf_d (sint w))"
  by (simp add: decimal_value_sprintf_d unpadded_decimal_sprintf_d)

text \<open>
  C7, as the code has it: every supported integer kind is rendered as the base-10 text
  of the value it holds, without padding, so two numeric keys of any supported kinds give
  the same text exactly when they hold the same value; a text key is returned verbatim.
  A text key is not kept apart from the numeric kinds: the text key made of the decimal
  digits of a value gives the same canonical text as a numeric key holding that value.
\<close>

theorem keyToString_canonical:
  "(numeric_value k = Some v \<longrightarrow>
      keyToString k = Inr (sprintf_d v) \<and> decimal_value (sprintf_d v) = v
      \<and> unpadded_decimal (sprintf_d v))
   \<and> (numeric_value k1 = Some v1 \<and> numeric_value k2 = Some v2 \<longrightarrow>
      (keyToString k1 = keyToString k2 \<longleftrightarrow> v1 = v2))
   \<and> keyToString (KString t) = Inr t
   \<and> (numeric_value k = Some v \<longrightarrow> keyToString (KString (sprintf_d v)) = keyToString k)"
  by (auto simp: keyToString_numeric decimal_value_sprintf_d unpadded_decimal_sprintf_d
           dest: sprintf_d_inj)

theorem keyToString_canonical_witness:
  "numeric_value (KInt32 42) = Some 42 \<and> numeric_value (KUint64 42) = Some 42
   \<and> keyToString (KInt32 42) = Inr ''42'' \<and> decimal_value ''42'' = 42 \<and> unpadded_decimal ''42''
   \<and> keyToString (KInt32 42) = keyToString (KUint64 42)
   \<and> keyToString (KString ''42'') = Inr ''42''
   \<and> keyToString (KString ''42'') = keyToString (KInt32 42)"
  using keyToString_canonical [where k = "KInt32 42" and v = 42 and ?k1.0 = "KInt32 42"
      and ?v1.0 = 42 and ?k2.0 = "KUint64 42" and ?v2.0 = 42 and t = "''42''"]
  by (simp add: render_defs)

text \<open>
  The text key \<open>"42"\<close> and the key \<open>int32(42)\<close> are given the same canonical text, against
  the last part of C7 as the specification words it.
\<close>

theorem keyToString_text_collides:
  "keyToString (KString ''42'') = keyToString (KInt32 42)"
  by (simp add: render_defs)

section \<open>The value cache\<close>

lemma getValueFromCache_read_fails:
  assumes "fixKey m key = Inr skey"
    and "GetInstance rd (namespace m) = Some client"
    and "cmdGet client (store w) skey = (Inl err, s')"
  shows "getValueFromCache js rd m w key =
           (Inl err, w\<lparr>store := s', calls := calls w @ [StoreGet skey]\<rparr>)"
  using assms by (simp add: getValueFromCache_def)

lemma getValueFromCache_read_hits:
  assumes "fixKey m key = Inr skey"
    and "GetInstance rd (namespace m) = Some client"
    and "cmdGet client (store w) skey = (Inr data, s')"
  shows "getValueFromCache js rd m w key =
           (case Unmarshal js data of Inl err \<Rightarrow> Inl err | Inr v \<Rightarrow> Inr v,
            w\<lparr>store := s', calls := calls w @ [StoreGet skey]\<rparr>)"
  using assms by (simp add: getValueFromCache_def split: sum.splits)

lemma loaderCalls_append: "loaderCalls (xs @ ys) = loaderCalls xs + loaderCalls ys"
  by (simp add: loaderCalls_def)

lemma storeWrites_append: "storeWrites (xs @ ys) = storeWrites xs + storeWrites ys"
  by (simp add: storeWrites_def)

lemma getValueFromCache_calls:
  "\<exists>evs. calls (snd (getValueFromCache js rd m w key)) = calls w @ evs
         \<and> loaderCalls evs = 0 \<and> storeWrites evs = 0"
  by (auto simp: getValueFromCache_def loaderCalls_def storeWrites_def Let_def
           split: sum.splits option.splits prod.splits)

lemma getValueFromCache_loaderCalls:
  "loaderCalls (calls (snd (getValueFromCache js rd m w key))) = loaderCalls (calls w)"
  using getValueFromCache_calls [of js rd m w key] by (auto simp: loaderCalls_append)

lemma loadValueToCache_load_fails:
  assumes "fixKey m key = Inr skey"
    and "GetInstance rd (namespace m) = Some client"
    and "load m key = Inl E"
    and "cmdSet client (store w) skey (Error E) (expire m) = (rerr, s')"
  shows "loadValueToCache js rd m w key =
           (rerr, w\<lparr>store := s',
                    calls := calls w @ [Load key, StoreSet skey (Error E) (expire m)]\<rparr>)"
  using assms by (simp add: loadValueToCache_def)

text \<open>
  What \<open>Get\<close> does on a miss when the loader fails with \<open>E\<close>, for every store and
  codec: the text of \<open>E\<close> is written, and the outcome is the error of the \<open>Set\<close> command
  or, when that succeeded, whatever the second read and decode give. \<open>E\<close> itself is
  never the outcome of \<open>loadValueToCache\<close>.
\<close>

lemma Get_miss_load_fails:
  assumes k: "fixKey m key = Inr skey"
    and c: "GetInstance rd (namespace m) = Some client"
    and miss: "cmdGet client (store w) skey = (Inl nf, s1)" "Error nf = RedisNil rd"
    and ld: "load m key = Inl E"
    and st: "cmdSet client s1 skey (Error E) (expire m) = (rerr, s2)"
  shows "Get js rd m w key =
           (case rerr of
              Some err \<Rightarrow>
                (Inl err,
                 w\<lparr>store := s2,
                   calls := calls w @ [StoreGet skey, Load key, StoreSet skey (Error E) (expire m)]\<rparr>)
            | None \<Rightarrow>
                getValueFromCache js rd m
                  (w\<lparr>store := s2,
                     calls := calls w @ [StoreGet skey, Load key, StoreSet skey (Error E) (expire m)]\<rparr>)
                  key)"
proof -
  let ?w1 = "w\<lparr>store := s1, calls := calls w @ [StoreGet skey]\<rparr>"
  have r: "getValueFromCache js rd m w key = (Inl nf, ?w1)"
    using k c miss(1) by (rule getValueFromCache_read_fails)
  have l: "loadValueToCache js rd m ?w1 key =
      (rerr, ?w1\<lparr>store := s2, calls := calls ?w1 @ [Load key, StoreSet skey (Error E) (expire m)]\<rparr>)"
    using k c ld by (rule loadValueToCache_load_fails) (simp add: st)
  show ?thesis
    by (simp add: Get_def r l miss(2) split: option.splits)
qed

lemma loadValueToCache_marshal_fails:
  assumes "fixKey m key = Inr skey"
    and "GetInstance rd (namespace m) = Some client"
    and "load m key = Inr v"
    and "Marshal js v = Inl E"
    and "cmdSet client (store w) skey (Error E) (expire m) = (rerr, s')"
  shows "loadValueToCache js rd m w key =
           (rerr, w\<lparr>store := s',
                    calls := calls w @ [Load key, StoreSet skey (Error E) (expire m)]\<rparr>)"
  using assms by (simp add: loadValueToCache_def)

text \<open>
  What \<open>Get\<close> does on a miss when the loaded value cannot be encoded, for every store
  and codec: the encoding error's text is written, and the outcome is the error of the
  \<open>Set\<close> command or, when that succeeded, whatever the second read and decode give.
\<close>

lemma Get_miss_marshal_fails:
  assumes k: "fixKey m key = Inr skey"
    and c: "GetInstance rd (namespace m) = Some client"
    and miss: "cmdGet client (store w) skey = (Inl nf, s1)" "Error nf = RedisNil rd"
    and ld: "load m key = Inr v"
    and enc: "Marshal js v = Inl E"
    and st: "cmdSet client s1 skey (Error E) (expire m) = (rerr, s2)"
  shows "Get js rd m w key =
           (case rerr of
              Some err \<Rightarrow>
                (Inl err,
                 w\<lparr>store := s2,
                   calls := calls w @ [StoreGet skey, Load key, StoreSet skey (Error E) (expire m)]\<rparr>)
            | None \<Rightarrow>
                getValueFromCache js rd m
                  (w\<lparr>store := s2,
                     calls := calls w @ [StoreGet skey, Load key, StoreSet skey (Error E) (expire m)]\<rparr>)
                  key)"
proof -
  let ?w1 = "w\<lparr>store := s1, calls := calls w @ [StoreGet skey]\<rparr>"
  have r: "getValueFromCache js rd m w key = (Inl nf, ?w1)"
    using k c miss(1) by (rule getValueFromCache_read_fails)
  have l: "loadValueToCache js rd m ?w1 key =
      (rerr, ?w1\<lparr>store := s2, calls := calls ?w1 @ [Load key, StoreSet skey (Error E) (expire m)]\<rparr>)"
    using k c ld enc by (rule loadValueToCache_marshal_fails) (simp add: st)
  show ?thesis
    by (simp add: Get_def r l miss(2) split: option.splits)
qed

lemmas run_defs = Get_def getValueFromCache_def loadValueToCache_def fixKey_def NewCache_def
  memRedis_def memClient_def memGet_def memSet_def coldStore_def downStore_def later_def
  intJSON_def hiddenJSON_def stdMarshal_def unmarshalInt_def unmarshalHidden_def syntaxError_def
  failingLoader_def chanLoader_def negCache_def chanCache_def is_digit_def
  loaderCalls_def storeWrites_def

text \<open>
  C1, where the code departs from it. On a cold, reachable store the loader of \<open>negCache\<close>
  fails with the error \<open>boom\<close>. \<open>Get\<close> issues the \<open>Set\<close> of the text \<open>boom\<close> under the
  canonical key with the configured lifetime, as C1 says, but it does not return \<open>boom\<close>:
  \<open>loadValueToCache\<close> returns the result of the \<open>Set\<close>, so \<open>Get\<close> reads the store again,
  decodes the text \<open>boom\<close> as JSON and returns the decoder's error.
\<close>

theorem Get_load_error_not_returned:
  "load negCache (KInt32 42) = Inl (errors_New ''boom'')
   \<and> fst (Get intJSON memRedis negCache coldStore (KInt32 42)) =
       Inl (errors_New (''invalid character '' @ [CHR 0x27, CHR ''b'', CHR 0x27]
                        @ '' looking for beginning of value''))
   \<and> fst (Get intJSON memRedis negCache coldStore (KInt32 42)) \<noteq> Inl (errors_New ''boom'')
   \<and> calls (snd (Get intJSON memRedis negCache coldStore (KInt32 42))) =
       [StoreGet ''ord.42'', Load (KInt32 42), StoreSet ''ord.42'' ''boom'' 5000000000,
        StoreGet ''ord.42'']"
  by (simp add: run_defs render_defs)

text \<open>
  C2, where the code departs from it. The loader of \<open>chanCache\<close> returns a channel, which
  \<open>json.Marshal\<close> rejects. \<open>Get\<close> issues the \<open>Set\<close> of the encoding error's text, as C2
  says, but it does not return the encoding error: it reads the store again, decodes
  that text as JSON and returns the decoder's error.
\<close>

theorem Get_marshal_error_not_returned:
  "load chanCache (KInt32 42) = Inr GoChan
   \<and> Marshal intJSON GoChan = Inl (errors_New ''json: unsupported type: chan int'')
   \<and> fst (Get intJSON memRedis chanCache coldStore (KInt32 42)) =
       Inl (errors_New (''invalid character '' @ [CHR 0x27, CHR ''j'', CHR 0x27]
                        @ '' looking for beginning of value''))
   \<and> fst (Get intJSON memRedis chanCache coldStore (KInt32 42)) \<noteq>
       Inl (errors_New ''json: unsupported type: chan int'')
   \<and> calls (snd (Get intJSON memRedis chanCache coldStore (KInt32 42))) =
       [StoreGet ''ord.42'', Load (KInt32 42),
        StoreSet ''ord.42'' ''json: unsupported type: chan int'' 5000000000,
        StoreGet ''ord.42'']"
  by (simp add: run_defs render_defs)

text \<open>
  C3: when the first read of the store fails with an error whose text is not the
  store's not-found text, \<open>Get\<close> returns an error built from it; the only call it makes
  is that read, so the loader is not invoked and nothing is written to the store, whose
  state is the one the read left.
\<close>

theorem Get_store_failure:
  assumes "fixKey m key = Inr skey"
    and "GetInstance rd (namespace m) = Some client"
    and "cmdGet client (store w) skey = (Inl err, s')"
    and "Error err \<noteq> RedisNil rd"
  shows "\<exists>w'. Get js rd m w key =
                (Inl (errors_New (''Cache.Get --> cache key: '' @ fmt_v key @ '' err: '' @ Error err)), w')
             \<and> calls w' = calls w @ [StoreGet skey]
             \<and> store w' = s'
             \<and> loaderCalls (calls w') = loaderCalls (calls w)
             \<and> storeWrites (calls w') = storeWrites (calls w)"
  using assms
  by (simp add: Get_def getValueFromCache_read_fails loaderCalls_def storeWrites_def)

theorem Get_store_failure_witness:
  "fixKey negCache (KInt32 42) = Inr ''ord.42''
   \<and> GetInstance memRedis (namespace negCache) = Some memClient
   \<and> cmdGet memClient (store downStore) ''ord.42'' =
       (Inl (errors_New ''dial tcp: connection refused''), store downStore)
   \<and> Error (errors_New ''dial tcp: connection refused'') \<noteq> RedisNil memRedis
   \<and> (\<exists>w'. Get intJSON memRedis negCache downStore (KInt32 42) =
              (Inl (errors_New ''Cache.Get --> cache key: 42 err: dial tcp: connection refused''), w')
           \<and> calls w' = [StoreGet ''ord.42'']
           \<and> loaderCalls (calls w') = 0 \<and> storeWrites (calls w') = 0)"
proof -
  have k: "fixKey negCache (KInt32 42) = Inr ''ord.42''"
    by (simp add: run_defs render_defs)
  have c: "GetInstance memRedis (namespace negCache) = Some memClient"
    by (simp add: run_defs)
  have r: "cmdGet memClient (store downStore) ''ord.42'' =
      (Inl (errors_New ''dial tcp: connection refused''), store downStore)"
    by (simp add: run_defs)
  have n: "Error (errors_New ''dial tcp: connection refused'') \<noteq> RedisNil memRedis"
    by (simp add: run_defs)
  show ?thesis
    using Get_store_failure [OF k c r n, of intJSON] k c r n
    by (auto simp: downStore_def render_defs loaderCalls_def storeWrites_def)
qed

text \<open>
  A \<open>Get\<close> whose first read returns the text of \<open>E\<close> only reads the store: it returns
  what the decoder makes of that text and invokes neither the loader nor \<open>Set\<close>,
  provided the decoder's error, if any, does not read as the store's not-found text.
\<close>

lemma Get_hit_reads_only:
  assumes k: "fixKey m key = Inr skey"
    and c: "GetInstance rd (namespace m) = Some client"
    and hit: "cmdGet client (store w) skey = (Inr (Error E), s')"
    and dec: "\<forall>err. Unmarshal js (Error E) = Inl err \<longrightarrow> Error err \<noteq> RedisNil rd"
  shows "snd (Get js rd m w key) = w\<lparr>store := s', calls := calls w @ [StoreGet skey]\<rparr>"
proof -
  have h: "getValueFromCache js rd m w key =
      (case Unmarshal js (Error E) of Inl err \<Rightarrow> Inl err | Inr v \<Rightarrow> Inr v,
       w\<lparr>store := s', calls := calls w @ [StoreGet skey]\<rparr>)"
    using k c hit by (rule getValueFromCache_read_hits)
  show ?thesis
    using dec by (auto simp: Get_def h split: sum.splits)
qed

text \<open>
  The store of the examples after a \<open>Get\<close> that misses and whose loader fails with \<open>E\<close>:
  the entry under the canonical key holds the text of \<open>E\<close> and expires \<open>expire m\<close> after
  the call; the calls made are the read, the load, the write and the second read.
\<close>

lemma mem_miss_is_up:
  assumes "cmdGet memClient s skey = (Inl nf, s1)" and "Error nf = RedisNil memRedis"
  shows "up s \<and> s1 = s"
  using assms
  by (auto simp: memClient_def memGet_def memRedis_def split: if_splits option.splits)

lemma mem_Get_miss_load_fails:
  assumes k: "fixKey m key = Inr skey"
    and c: "GetInstance memRedis (namespace m) = Some memClient"
    and miss: "cmdGet memClient (store w0) skey = (Inl nf, s1)" "Error nf = RedisNil memRedis"
    and ld: "load m key = Inl E"
    and pos: "0 < expire m"
  shows "snd (Get js memRedis m w0 key) =
           w0\<lparr>store := (store w0)\<lparr>entries := (entries (store w0))
                                (skey \<mapsto> (Error E, clock (store w0) + expire m))\<rparr>,
              calls := calls w0 @ [StoreGet skey, Load key, StoreSet skey (Error E) (expire m),
                                   StoreGet skey]\<rparr>"
proof -
  let ?s2 = "(store w0)\<lparr>entries := (entries (store w0))
                          (skey \<mapsto> (Error E, clock (store w0) + expire m))\<rparr>"
  let ?w = "w0\<lparr>store := ?s2,
               calls := calls w0 @ [StoreGet skey, Load key, StoreSet skey (Error E) (expire m)]\<rparr>"
  have u: "up (store w0)" and s1: "s1 = store w0"
    using mem_miss_is_up [OF miss] by simp_all
  have st: "cmdSet memClient s1 skey (Error E) (expire m) = (None, ?s2)"
    using u s1 by (simp add: memClient_def memSet_def)
  have g: "Get js memRedis m w0 key = getValueFromCache js memRedis m ?w key"
    using Get_miss_load_fails [OF k c miss ld st, of js] by simp
  have rd: "cmdGet memClient (store ?w) skey = (Inr (Error E), ?s2)"
    using u pos by (simp add: memClient_def memGet_def)
  have "getValueFromCache js memRedis m ?w key =
      (case Unmarshal js (Error E) of Inl err \<Rightarrow> Inl err | Inr v \<Rightarrow> Inr v,
       ?w\<lparr>store := ?s2, calls := calls ?w @ [StoreGet skey]\<rparr>)"
    using k c rd by (rule getValueFromCache_read_hits)
  then show ?thesis
    by (simp add: g)
qed

text \<open>
  C4, on the store of the examples, for every cache resolved to it, every key, loader
  error \<open>E\<close>, codec and state of the store: a first \<open>Get\<close> misses and its loader fails
  with \<open>E\<close>; a second \<open>Get\<close> of the same key starts \<open>d\<close> later, before the lifetime
  \<open>expire m\<close> is over. The entry the second call reads is the one the first call wrote:
  the first call invokes the loader once and the second not at all, so the count of
  loader invocations over the two calls is one. The decoder's error on the text of \<open>E\<close>,
  if any, is taken not to read as the store's not-found text.
\<close>

theorem Get_negative_entry_no_reload:
  assumes k: "fixKey m key = Inr skey"
    and c: "GetInstance memRedis (namespace m) = Some memClient"
    and miss: "cmdGet memClient (store w0) skey = (Inl nf, s1)" "Error nf = RedisNil memRedis"
    and ld: "load m key = Inl E"
    and d: "0 \<le> d" "d < expire m"
    and dec: "\<forall>err. Unmarshal js (Error E) = Inl err \<longrightarrow> Error err \<noteq> RedisNil memRedis"
    and first: "Get js memRedis m w0 key = (res1, w1)"
    and second: "Get js memRedis m (later d w1) key = (res2, w2)"
  shows "calls w1 = calls w0 @ [StoreGet skey, Load key, StoreSet skey (Error E) (expire m),
                                StoreGet skey]
       \<and> calls w2 = calls w1 @ [StoreGet skey]
       \<and> loaderCalls (calls w1) = loaderCalls (calls w0) + 1
       \<and> loaderCalls (calls w2) = loaderCalls (calls w0) + 1"
proof -
  let ?s2 = "(store w0)\<lparr>entries := (entries (store w0))
                          (skey \<mapsto> (Error E, clock (store w0) + expire m))\<rparr>"
  have pos: "0 < expire m"
    using d by simp
  have u: "up (store w0)"
    using mem_miss_is_up [OF miss] by simp
  have w1: "w1 = w0\<lparr>store := ?s2,
      calls := calls w0 @ [StoreGet skey, Load key, StoreSet skey (Error E) (expire m),
                           StoreGet skey]\<rparr>"
    using mem_Get_miss_load_fails [OF k c miss ld pos, of js] first by simp
  have hit: "cmdGet memClient (store (later d w1)) skey =
      (Inr (Error E), store (later d w1))"
    using u d by (simp add: w1 later_def memClient_def memGet_def)
  have "w2 = (later d w1)\<lparr>store := store (later d w1),
      calls := calls (later d w1) @ [StoreGet skey]\<rparr>"
    using Get_hit_reads_only [OF k c hit dec] second by simp
  then have c2: "calls w2 = calls w1 @ [StoreGet skey]"
    by (simp add: later_def)
  have c1: "calls w1 = calls w0 @ [StoreGet skey, Load key, StoreSet skey (Error E) (expire m),
      StoreGet skey]"
    by (simp add: w1)
  have l1: "loaderCalls (calls w1) = loaderCalls (calls w0) + 1"
    by (simp add: c1 loaderCalls_def)
  have l2: "loaderCalls (calls w2) = loaderCalls (calls w0) + 1"
    by (simp add: c2 c1 loaderCalls_def)
  from c1 c2 l1 l2 show ?thesis by simp
qed

theorem Get_negative_entry_no_reload_witness:
  "fixKey negCache (KInt32 42) = Inr ''ord.42''
   \<and> GetInstance memRedis (namespace negCache) = Some memClient
   \<and> cmdGet memClient (store coldStore) ''ord.42'' = (Inl (errors_New ''redis: nil''), store coldStore)
   \<and> load negCache (KInt32 42) = Inl (errors_New ''boom'')
   \<and> (0::int) \<le> 3000000000 \<and> 3000000000 < expire negCache
   \<and> loaderCalls (calls (snd (Get intJSON memRedis negCache coldStore (KInt32 42)))) = 1
   \<and> calls (snd (Get intJSON memRedis negCache
        (later 3000000000 (snd (Get intJSON memRedis negCache coldStore (KInt32 42))))
        (KInt32 42))) =
       [StoreGet ''ord.42'', Load (KInt32 42), StoreSet ''ord.42'' ''boom'' 5000000000,
        StoreGet ''ord.42'', StoreGet ''ord.42'']
   \<and> loaderCalls (calls (snd (Get intJSON memRedis negCache
        (later 3000000000 (snd (Get intJSON memRedis negCache coldStore (KInt32 42))))
        (KInt32 42)))) = 1"
proof -
  let ?w1 = "snd (Get intJSON memRedis negCache coldStore (KInt32 42))"
  have k: "fixKey negCache (KInt32 42) = Inr ''ord.42''"
    by (simp add: run_defs render_defs)
  have c: "GetInstance memRedis (namespace negCache) = Some memClient"
    by (simp add: run_defs)
  have miss: "cmdGet memClient (store coldStore) ''ord.42'' =
      (Inl (errors_New ''redis: nil''), store coldStore)"
    by (simp add: run_defs)
  have nf: "Error (errors_New ''redis: nil'') = RedisNil memRedis"
    by (simp add: run_defs)
  have ld: "load negCache (KInt32 42) = Inl (errors_New ''boom'')"
    by (simp add: run_defs)
  have d0: "(0::int) \<le> 3000000000"
    by simp
  have d1: "3000000000 < expire negCache"
    by (simp add: negCache_def NewCache_def)
  have dec: "\<forall>err. Unmarshal intJSON (Error (errors_New ''boom'')) = Inl err \<longrightarrow>
      Error err \<noteq> RedisNil memRedis"
    by (simp add: intJSON_def unmarshalInt_def syntaxError_def memRedis_def is_digit_def)
  have first: "Get intJSON memRedis negCache coldStore (KInt32 42) =
      (fst (Get intJSON memRedis negCache coldStore (KInt32 42)), ?w1)"
    by simp
  have second: "Get intJSON memRedis negCache (later 3000000000 ?w1) (KInt32 42) =
      (fst (Get intJSON memRedis negCache (later 3000000000 ?w1) (KInt32 42)),
       snd (Get intJSON memRedis negCache (later 3000000000 ?w1) (KInt32 42)))"
    by simp
  show ?thesis
    using Get_negative_entry_no_reload [OF k c miss nf ld d0 d1 dec first second] k c miss ld d1
    by (simp add: coldStore_def negCache_def NewCache_def failingLoader_def loaderCalls_def)
qed

text \<open>
  The lifetime matters: when the second \<open>Get\<close> starts once the lifetime is over, the
  entry is gone and the loader is invoked a second time.
\<close>

lemma Get_after_expiry_reloads:
  assumes k: "fixKey m key = Inr skey"
    and c: "GetInstance memRedis (namespace m) = Some memClient"
    and miss: "cmdGet memClient (store w0) skey = (Inl nf, s1)" "Error nf = RedisNil memRedis"
    and ld: "load m key = Inl E"
    and d: "0 < expire m" "expire m \<le> d"
  shows "loaderCalls (calls (snd (Get js memRedis m
           (later d (snd (Get js memRedis m w0 key))) key))) = loaderCalls (calls w0) + 2"
proof -
  let ?s2 = "(store w0)\<lparr>entries := (entries (store w0))
                          (skey \<mapsto> (Error E, clock (store w0) + expire m))\<rparr>"
  let ?w1 = "snd (Get js memRedis m w0 key)"
  have u: "up (store w0)"
    using mem_miss_is_up [OF miss] by simp
  have w1: "?w1 = w0\<lparr>store := ?s2,
      calls := calls w0 @ [StoreGet skey, Load key, StoreSet skey (Error E) (expire m),
                           StoreGet skey]\<rparr>"
    using mem_Get_miss_load_fails [OF k c miss ld d(1), of js] by simp
  have gone: "cmdGet memClient (store (later d ?w1)) skey =
      (Inl (errors_New ''redis: nil''), store (later d ?w1))"
    using u d by (simp add: w1 later_def memClient_def memGet_def)
  have nil: "Error (errors_New ''redis: nil'') = RedisNil memRedis"
    by (simp add: memRedis_def)
  have pos: "0 < expire m" by (rule d(1))
  have "calls (snd (Get js memRedis m (later d ?w1) key)) =
      calls (later d ?w1) @ [StoreGet skey, Load key, StoreSet skey (Error E) (expire m),
                             StoreGet skey]"
    using mem_Get_miss_load_fails [OF k c gone nil ld pos, of js] by simp
  then show ?thesis
    by (simp add: w1 later_def loaderCalls_def)
qed

section \<open>Message payloads\<close>

lemmas ctx_defs = Background_def ContextWithSpan_def WithValue_def SpanFromContext_def ctxValue_def

lemmas mq_defs = generate_then_parse_def generatePayload_def parsePayload_def
  generateMsgsPayload_def testTracer_def producerCtx_def intJSON_def hiddenJSON_def
  stdMarshal_def unmarshalInt_def unmarshalHidden_def syntaxError_def is_digit_def

text \<open>
  C5, as the code has it: when the JSON encoding of \<open>V\<close> succeeds and the decoder reads
  the encoded text back as \<open>V\<close>, \<open>generatePayload\<close> followed by \<open>parsePayload\<close> on the
  envelope succeeds with \<open>V\<close> in the output slot, and the header of the returned context
  is the header of the original context. That the encoding succeeds is not enough.
\<close>

theorem payload_round_trip:
  assumes "Marshal js v = Inr msg"
    and "Unmarshal js msg = Inr v"
  shows "\<exists>ctx'. generate_then_parse tr js ctx v opName = Inr (ctx', v)
               \<and> ctxValue ctx' ''Head'' = ctxValue ctx ''Head''"
  using assms
  by (simp add: generate_then_parse_def generatePayload_def parsePayload_def Let_def ctx_defs)

theorem payload_round_trip_witness:
  "Marshal intJSON (GoInt 5) = Inr ''5''
   \<and> Unmarshal intJSON ''5'' = Inr (GoInt 5)
   \<and> (\<exists>ctx'. generate_then_parse testTracer intJSON producerCtx (GoInt 5) ''consume'' =
                Inr (ctx', GoInt 5)
            \<and> ctxValue ctx' ''Head'' = Some (TestHead 7 ''x''))"
proof -
  have m: "Marshal intJSON (GoInt 5) = Inr ''5''"
    by (simp add: intJSON_def stdMarshal_def render_defs)
  have u: "Unmarshal intJSON ''5'' = Inr (GoInt 5)"
    by (simp add: intJSON_def unmarshalInt_def is_digit_def digits_value_def digit_val_def)
  have h: "ctxValue producerCtx ''Head'' = Some (TestHead 7 ''x'')"
    by (simp add: producerCtx_def ctx_defs)
  show ?thesis
    using payload_round_trip [OF m u, of testTracer producerCtx "''consume''"] m u h
    by simp
qed

text \<open>
  A value whose encoding succeeds and which does not come back: a struct with an
  unexported field set to 1 is encoded as \<open>{}\<close> and decoded with the field at 0, against
  C5 as the specification words it.
\<close>

theorem hidden_field_not_restored:
  "Marshal hiddenJSON (GoHidden 1) = Inr ''{}''
   \<and> map_sum id snd (generate_then_parse testTracer hiddenJSON producerCtx (GoHidden 1) ''consume'')
       = Inr (GoHidden 0)
   \<and> GoHidden 0 \<noteq> GoHidden 1"
  by (simp add: mq_defs ctx_defs)

text \<open>
  C8: a failure to extract a span context from the carrier never makes \<open>parsePayload\<close>
  fail: it starts a span without a parent reference, where a carrier that extracts
  gives a span started with the server option on the extracted span context, and, when
  the value decodes, returns the context carrying that span and the envelope's header.
  \<open>parsePayload\<close>
  fails exactly when decoding the envelope's value fails, and then returns the
  decoder's error and no context.
\<close>

theorem parsePayload_errors:
  "(Extract tr (Carrier payload) = Inl cerr \<and> Unmarshal js (Value payload) = Inr v \<longrightarrow>
      parsePayload tr js payload opName =
        Inr (WithValue (ContextWithSpan Background (StartSpan tr opName []))
               ''Head'' (Head payload), v))
   \<and> (Extract tr (Carrier payload) = Inr spanCtx \<and> Unmarshal js (Value payload) = Inr v \<longrightarrow>
      parsePayload tr js payload opName =
        Inr (WithValue (ContextWithSpan Background (StartSpan tr opName [RPCServerOption spanCtx]))
               ''Head'' (Head payload), v))
   \<and> (Unmarshal js (Value payload) = Inl err \<longrightarrow> parsePayload tr js payload opName = Inl err)
   \<and> (parsePayload tr js payload opName = Inl err \<longrightarrow> Unmarshal js (Value payload) = Inl err)"
  by (auto simp: parsePayload_def Let_def split: sum.splits)

theorem parsePayload_errors_witness:
  "Extract testTracer (Carrier \<lparr>Carrier = Map.empty, Value = ''5'', Head = Some NotAHeader\<rparr>) =
       Inl (errors_New ''opentracing: SpanContext not found in Extract carrier'')
   \<and> Unmarshal intJSON ''5'' = Inr (GoInt 5)
   \<and> parsePayload testTracer intJSON \<lparr>Carrier = Map.empty, Value = ''5'', Head = Some NotAHeader\<rparr>
        ''consume'' =
       Inr (WithValue (ContextWithSpan Background (TestSpan ''consume'' [] 1))
              ''Head'' (Some NotAHeader), GoInt 5)
   \<and> Extract testTracer (Carrier \<lparr>Carrier = [''trace-id'' \<mapsto> ''12''], Value = ''5'', Head = Some NotAHeader\<rparr>) =
       Inr 12
   \<and> parsePayload testTracer intJSON
        \<lparr>Carrier = [''trace-id'' \<mapsto> ''12''], Value = ''5'', Head = Some NotAHeader\<rparr> ''consume'' =
       Inr (WithValue (ContextWithSpan Background (TestSpan ''consume'' [RPCServerOption 12] 12))
              ''Head'' (Some NotAHeader), GoInt 5)
   \<and> Unmarshal intJSON ''boom'' = Inl (syntaxError ''boom'')
   \<and> parsePayload testTracer intJSON \<lparr>Carrier = Map.empty, Value = ''boom'', Head = Some NotAHeader\<rparr>
        ''consume'' = Inl (syntaxError ''boom'')"
proof -
  have x: "Extract testTracer
      (Carrier \<lparr>Carrier = [''trace-id'' \<mapsto> ''12''], Value = ''5'', Head = Some NotAHeader\<rparr>) = Inr 12"
    by (simp add: testTracer_def digits_value_def digit_val_def)
  have e: "Extract testTracer (Carrier \<lparr>Carrier = Map.empty, Value = ''5'', Head = Some NotAHeader\<rparr>) =
      Inl (errors_New ''opentracing: SpanContext not found in Extract carrier'')"
    by (simp add: testTracer_def)
  have u: "Unmarshal intJSON ''5'' = Inr (GoInt 5)"
    by (simp add: intJSON_def unmarshalInt_def is_digit_def digits_value_def digit_val_def)
  have b: "Unmarshal intJSON ''boom'' = Inl (syntaxError ''boom'')"
    by (simp add: intJSON_def unmarshalInt_def is_digit_def)
  show ?thesis
    using parsePayload_errors [where tr = testTracer and js = intJSON and opName = "''consume''"
        and payload = "\<lparr>Carrier = Map.empty, Value = ''5'', Head = Some NotAHeader\<rparr>"
        and v = "GoInt 5"
        and cerr = "errors_New ''opentracing: SpanContext not found in Extract carrier''"]
      parsePayload_errors [where tr = testTracer and js = intJSON and opName = "''consume''"
        and payload = "\<lparr>Carrier = [''trace-id'' \<mapsto> ''12''], Value = ''5'', Head = Some NotAHeader\<rparr>"
        and v = "GoInt 5" and spanCtx = 12]
      parsePayload_errors [where tr = testTracer and js = intJSON and opName = "''consume''"
        and payload = "\<lparr>Carrier = Map.empty, Value = ''boom'', Head = Some NotAHeader\<rparr>"
        and err = "syntaxError ''boom''"]
      e u b x
    by (simp add: testTracer_def)
qed

lemma msgsLoop_keys:
  "msgsLoop js carrier head msgs nmsgs = Inr out \<Longrightarrow>
     map Key out = map Key nmsgs @ map Key msgs"
proof (induction msgs arbitrary: nmsgs)
  case Nil
  then show ?case by simp
next
  case (Cons msg msgs)
  then show ?case
    by (auto split: sum.splits)
qed

text \<open>
  C9: when \<open>generateMsgsPayload\<close> succeeds, the output batch has the length of the input
  batch and the keys of its messages are the keys of the input messages, in the same
  order.
\<close>

theorem generateMsgsPayload_keys:
  assumes "generateMsgsPayload tr js ctx msgs = Inr out"
  shows "length out = length msgs \<and> map Key out = map Key msgs
       \<and> (\<forall>i < length msgs. Key (out ! i) = Key (msgs ! i))"
proof -
  have keys: "map Key out = map Key msgs"
    using assms msgsLoop_keys [where nmsgs = "[]"]
    by (fastforce simp: generateMsgsPayload_def Let_def)
  then have len: "length out = length msgs"
    using map_eq_imp_length_eq by blast
  have "Key (out ! i) = Key (msgs ! i)" if "i < length msgs" for i
    using that keys len by (metis nth_map)
  with keys len show ?thesis by blast
qed

theorem generateMsgsPayload_keys_witness:
  "generateMsgsPayload testTracer intJSON (Background :: (test_span, test_head) Context)
       [\<lparr>Key = ''a'', MsgValue = GoInt 1\<rparr>, \<lparr>Key = ''b'', MsgValue = GoInt 2\<rparr>] =
     Inr [\<lparr>Key = ''a'', MsgValue = \<lparr>Carrier = Map.empty, Value = ''1'', Head = None\<rparr>\<rparr>,
          \<lparr>Key = ''b'', MsgValue = \<lparr>Carrier = Map.empty, Value = ''2'', Head = None\<rparr>\<rparr>]
   \<and> length [\<lparr>Key = ''a'', MsgValue = \<lparr>Carrier = Map.empty, Value = ''1'', Head = (None :: test_head option)\<rparr>\<rparr>,
          \<lparr>Key = ''b'', MsgValue = \<lparr>Carrier = Map.empty, Value = ''2'', Head = None\<rparr>\<rparr>] = 2
   \<and> map Key [\<lparr>Key = ''a'', MsgValue = \<lparr>Carrier = Map.empty, Value = ''1'', Head = (None :: test_head option)\<rparr>\<rparr>,
          \<lparr>Key = ''b'', MsgValue = \<lparr>Carrier = Map.empty, Value = ''2'', Head = None\<rparr>\<rparr>] = [''a'', ''b'']"
proof -
  have g: "generateMsgsPayload testTracer intJSON (Background :: (test_span, test_head) Context)
       [\<lparr>Key = ''a'', MsgValue = GoInt 1\<rparr>, \<lparr>Key = ''b'', MsgValue = GoInt 2\<rparr>] =
     Inr [\<lparr>Key = ''a'', MsgValue = \<lparr>Carrier = Map.empty, Value = ''1'', Head = None\<rparr>\<rparr>,
          \<lparr>Key = ''b'', MsgValue = \<lparr>Carrier = Map.empty, Value = ''2'', Head = None\<rparr>\<rparr>]"
    by (simp add: mq_defs ctx_defs render_defs Let_def)
  show ?thesis
    using generateMsgsPayload_keys [OF g] g by simp
qed

section \<open>Log contexts\<close>

lemmas slog_defs = extractContext_def extractTraceID_def extractHead_def emptyTrace_def
  emptyHead_def contextKeyOpUid_def contextKeyTraceID_def testJaegerTraceID_def testToKV_def
  ErrorTraceIDNotFound_def ErrorHeadKVNotFound_def producerCtx_def

text \<open>
  C6, as the code has it: for every context that is not nil and every \<open>fullHead\<close> flag,
  \<open>extractContext\<close> returns two elements, the trace component and then the head
  component, each replaced by its placeholder when its extraction fails. For the nil
  context it returns the empty result. Being a total function, it never fails.
\<close>

theorem extractContext_components:
  "length (extractContext jt tk (Some ctx) fullHead) = 2
   \<and> (extractTraceID jt ctx = Inr t \<longrightarrow> extractContext jt tk (Some ctx) fullHead ! 0 = t)
   \<and> (extractTraceID jt ctx = Inl e1 \<longrightarrow> extractContext jt tk (Some ctx) fullHead ! 0 = emptyTrace)
   \<and> (extractHead tk ctx fullHead = Inr h \<longrightarrow> extractContext jt tk (Some ctx) fullHead ! 1 = h)
   \<and> (extractHead tk ctx fullHead = Inl e2 \<longrightarrow> extractContext jt tk (Some ctx) fullHead ! 1 = emptyHead)
   \<and> extractContext jt tk None fullHead = []"
  by (auto simp: extractContext_def Let_def split: sum.splits)

theorem extractContext_components_witness:
  "extractTraceID testJaegerTraceID producerCtx = Inr [''traceID'' \<mapsto> TraceIDVal 0 12]
   \<and> extractHead testToKV producerCtx False = Inr [''uid'' \<mapsto> Int64Val 7]
   \<and> extractContext testJaegerTraceID testToKV (Some producerCtx) False =
       [Map.empty(''traceID'' \<mapsto> TraceIDVal 0 12), Map.empty(''uid'' \<mapsto> Int64Val 7)]
   \<and> extractTraceID testJaegerTraceID (Background :: (test_span, test_head) Context) =
       Inl ErrorTraceIDNotFound
   \<and> extractHead testToKV (Background :: (test_span, test_head) Context) True =
       Inl ErrorHeadKVNotFound
   \<and> extractContext testJaegerTraceID testToKV
        (Some (Background :: (test_span, test_head) Context)) True = [emptyTrace, emptyHead]"
proof -
  have t: "extractTraceID testJaegerTraceID producerCtx = Inr [''traceID'' \<mapsto> TraceIDVal 0 12]"
    by (simp add: slog_defs ctx_defs)
  have h: "extractHead testToKV producerCtx False = Inr [''uid'' \<mapsto> Int64Val 7]"
    by (simp add: slog_defs ctx_defs)
  have t0: "extractTraceID testJaegerTraceID (Background :: (test_span, test_head) Context) =
      Inl ErrorTraceIDNotFound"
    by (simp add: extractTraceID_def ctx_defs)
  have h0: "extractHead testToKV (Background :: (test_span, test_head) Context) True =
      Inl ErrorHeadKVNotFound"
    by (simp add: extractHead_def ctx_defs)
  have two: "xs = [a, b]" if "length xs = 2" "xs ! 0 = a" "xs ! 1 = b" for xs :: "contextKV list" and a b
    using that by (cases xs; cases "tl xs") auto
  show ?thesis
    using extractContext_components [where jt = testJaegerTraceID and tk = testToKV
        and ctx = producerCtx and fullHead = False
        and t = "[''traceID'' \<mapsto> TraceIDVal 0 12]" and h = "[''uid'' \<mapsto> Int64Val 7]"]
      extractContext_components [where jt = testJaegerTraceID and tk = testToKV
        and ctx = "Background :: (test_span, test_head) Context" and fullHead = True
        and ?e1.0 = ErrorTraceIDNotFound and ?e2.0 = ErrorHeadKVNotFound]
      t h t0 h0
    by (auto intro!: two)
qed

text \<open>
  The nil context, for which the result has no element, against C6 as the
  specification words it.
\<close>

theorem extractContext_nil:
  "extractContext testJaegerTraceID testToKV None True = []
   \<and> length (extractContext testJaegerTraceID testToKV None True) \<noteq> 2"
  by (simp add: extractContext_def)

end
